theory Spec2Isabelle
  imports Complex_Main
begin

section \<open>Verso storefront: pricing, coupons, checkout and roles\<close>

text \<open>
  The development follows the Django models of the storefront
  (\<^verbatim>\<open>products/models.py\<close>, \<^verbatim>\<open>orders/models.py\<close>, \<^verbatim>\<open>accounts/models.py\<close>) and the
  checkout view (\<^verbatim>\<open>orders/views.py\<close>).

  Conventions of the embedding:
  \<^item> a \<^verbatim>\<open>DecimalField\<close> is a rational number (\<open>rat\<close>): on the values the columns can hold
    (at most 10 digits, 2 decimal places) every sum, product and division by 100 of the
    methods below is exact in Python's 28-digit decimal context;
  \<^item> an \<^verbatim>\<open>IntegerField\<close> is an \<open>int\<close>, a nullable column an \<open>option\<close>;
  \<^item> a \<^verbatim>\<open>CharField\<close> is a \<open>string\<close>, compared with the literals the code compares it with;
  \<^item> a \<^verbatim>\<open>DateTimeField\<close> is a point on an integer time line, and \<^verbatim>\<open>timezone.now()\<close> is
    an argument of the function that calls it;
  \<^item> a primary key is a natural number.
\<close>

type_synonym time = int
type_synonym pk = nat

subsection \<open>Products\<close>

record Product =
  sku :: string
  name :: string
  base_price :: rat
  discount_percentage :: rat
  discount_amount :: rat
  total_stock :: int
  sales_count :: int

text \<open>\<^verbatim>\<open>Product.current_price\<close>: the percentage branch is tested first.\<close>

definition current_price :: "Product \<Rightarrow> rat" where
  "current_price p =
     (if discount_percentage p > 0 then base_price p * (1 - discount_percentage p / 100)
      else if discount_amount p > 0 then max (base_price p - discount_amount p) 0
      else base_price p)"

text \<open>
  \<^verbatim>\<open>ProductVariant\<close>: \<open>product\<close> is the foreign key to the product row; the column
  \<^verbatim>\<open>size\<close> is called \<open>variant_size\<close> here.
\<close>

record ProductVariant =
  product :: pk
  variant_size :: string
  color :: string
  stock :: int
  additional_price :: rat

subsection \<open>Coupons\<close>

record Coupon =
  coupon_code :: string
  discount_type :: string
  discount_value :: rat
  minimum_purchase :: rat
  usage_limit :: "int option"
  usage_count :: int
  single_use :: bool
  valid_from :: time
  valid_to :: time
  is_active :: bool
  applicable_categories :: "pk list"
  applicable_products :: "pk list"
  applicable_users :: "pk list"

text \<open>
  \<^verbatim>\<open>Coupon.is_valid\<close>. The test \<^verbatim>\<open>if self.usage_limit and ...\<close> is Python truthiness of a
  nullable integer: it is false for \<^verbatim>\<open>None\<close> and for \<^verbatim>\<open>0\<close>.
\<close>

definition is_valid :: "time \<Rightarrow> Coupon \<Rightarrow> bool" where
  "is_valid now c =
     (if \<not> is_active c then False
      else if valid_from c > now \<or> valid_to c < now then False
      else if (case usage_limit c of None \<Rightarrow> False
               | Some l \<Rightarrow> l \<noteq> 0 \<and> usage_count c \<ge> l) then False
      else True)"

text \<open>\<^verbatim>\<open>Coupon.calculate_discount\<close>: every type other than \<^verbatim>\<open>'percentage'\<close> takes the
  \<^verbatim>\<open>else\<close> branch.\<close>

definition calculate_discount :: "Coupon \<Rightarrow> rat \<Rightarrow> rat" where
  "calculate_discount c subtotal =
     (if subtotal < minimum_purchase c then 0
      else if discount_type c = ''percentage'' then subtotal * (discount_value c / 100)
      else min (discount_value c) subtotal)"

subsection \<open>Users and roles\<close>

record User =
  user_id :: pk
  username :: string
  email :: string
  phone_number :: string
  address :: string
  role :: string
  is_staff :: bool
  is_superuser :: bool

definition is_staff_member :: "User \<Rightarrow> bool" where
  "is_staff_member u = (role u \<in> set [''admin'', ''manager'', ''employee''])"

definition is_admin :: "User \<Rightarrow> bool" where
  "is_admin u = (role u = ''admin'')"

text \<open>The dictionary \<^verbatim>\<open>role_hierarchy\<close> of \<^verbatim>\<open>can_delete_user\<close>, and its
  \<^verbatim>\<open>.get(role, 0)\<close>.\<close>

definition role_hierarchy :: "string \<rightharpoonup> int" where
  "role_hierarchy =
     [''customer'' \<mapsto> 0, ''employee'' \<mapsto> 1, ''manager'' \<mapsto> 2, ''admin'' \<mapsto> 3]"

definition role_rank :: "string \<Rightarrow> int" where
  "role_rank r = (case role_hierarchy r of None \<Rightarrow> 0 | Some n \<Rightarrow> n)"

definition can_delete_user :: "User \<Rightarrow> User \<Rightarrow> bool" where
  "can_delete_user self target_user =
     (if \<not> is_staff_member self then False
      else if is_admin target_user \<and> \<not> is_superuser self then False
      else if role_rank (role target_user) \<ge> role_rank (role self) then False
      else True)"

definition can_edit_user :: "User \<Rightarrow> User \<Rightarrow> bool" where
  "can_edit_user self target_user =
     (if \<not> is_staff_member self then False
      else if user_id self = user_id target_user then True
      else can_delete_user self target_user)"

text \<open>\<^verbatim>\<open>User.save\<close>: the flags derived from the role. The write to the database that
  follows stores the returned object.\<close>

definition User_save :: "User \<Rightarrow> User" where
  "User_save u =
     (let u1 = (if role u \<in> set [''admin'', ''manager'', ''employee'']
                then u\<lparr>is_staff := True\<rparr> else u\<lparr>is_staff := False\<rparr>)
      in if role u1 = ''admin'' then u1\<lparr>is_superuser := True\<rparr> else u1)"

text \<open>The permission matrix of \<^verbatim>\<open>User.has_perm\<close>.\<close>

definition permission_matrix :: "string \<rightharpoonup> string list" where
  "permission_matrix =
     [''manager'' \<mapsto>
        [''products.add_product'', ''products.change_product'', ''products.view_product'',
         ''orders.view_order'', ''orders.change_order'', ''accounts.view_user'',
         ''accounts.add_user''],
      ''employee'' \<mapsto>
        [''products.view_product'', ''orders.view_order'', ''orders.change_order'',
         ''accounts.view_user''],
      ''customer'' \<mapsto> [''orders.add_order'', ''orders.view_order'']]"

text \<open>
  \<^verbatim>\<open>User.has_perm\<close>. The last line delegates to the framework's
  \<^verbatim>\<open>AbstractUser.has_perm\<close>, which is not part of the repository: it is the parameter
  \<open>super_has_perm\<close>.
\<close>

definition has_perm :: "(User \<Rightarrow> string \<Rightarrow> bool) \<Rightarrow> User \<Rightarrow> string \<Rightarrow> bool" where
  "has_perm super_has_perm u perm =
     (if is_superuser u \<or> is_admin u then True
      else (case permission_matrix (role u) of
              Some perms \<Rightarrow> perm \<in> set perms
            | None \<Rightarrow> super_has_perm u perm))"

text \<open>A caller that assigns a sequence of roles to a user, saving after each assignment.\<close>

fun assign_roles :: "User \<Rightarrow> string list \<Rightarrow> User" where
  "assign_roles u [] = u"
| "assign_roles u (r # rs) = assign_roles (User_save (u\<lparr>role := r\<rparr>)) rs"

subsection \<open>The database\<close>

text \<open>
  Rows refer to each other by primary key. The foreign keys of a cart item are enforced by
  the database, so the product and the variant of a row always exist: the product and
  variant tables are total functions from primary key to row. In \<open>CartItem\<close> the column
  \<^verbatim>\<open>product\<close> is called \<open>item_product\<close>. Of the columns of an order, the snapshot of
  the customer's name and the remaining address lines, which are copied like
  \<open>shipping_address\<close> and read by no method, are left out; the monetary columns are
  called \<open>order_subtotal\<close>, \<open>order_tax\<close>, \<open>order_shipping\<close> and \<open>order_total\<close>, since
  \<open>subtotal\<close>, \<open>tax\<close>, \<open>shipping\<close> and \<open>total\<close> are the properties of a cart.
\<close>

record Cart =
  cart_id :: pk
  user :: "pk option"
  session_key :: "string option"

record CartItem =
  cart :: pk
  item_product :: pk
  variant :: "pk option"
  quantity :: int

record Order =
  order_id :: pk
  order_number :: string
  order_user :: "pk option"
  customer_email :: string
  customer_phone :: string
  shipping_address :: string
  status :: string
  payment_method :: string
  customer_notes :: string
  order_subtotal :: rat
  order_tax :: rat
  order_shipping :: rat
  discount :: rat
  order_total :: rat
  paid_at :: "time option"
  shipped_at :: "time option"
  delivered_at :: "time option"
  cancelled_at :: "time option"

record OrderItem =
  order :: pk
  ordered_product :: "pk option"
  ordered_variant :: "pk option"
  product_name :: string
  product_sku :: string
  ordered_size :: string
  ordered_color :: string
  ordered_unit_price :: rat
  ordered_quantity :: int

record Shop =
  products :: "pk \<Rightarrow> Product"
  variants :: "pk \<Rightarrow> ProductVariant"
  carts :: "Cart list"
  cart_items :: "CartItem list"
  orders :: "Order list"
  order_items :: "OrderItem list"

subsection \<open>Carts\<close>

text \<open>\<^verbatim>\<open>ProductVariant.price\<close>.\<close>

definition price :: "Shop \<Rightarrow> ProductVariant \<Rightarrow> rat" where
  "price db v = current_price (products db (product v)) + additional_price v"

text \<open>\<^verbatim>\<open>cart.items.all()\<close>, the rows of the related manager, in the order the query
  returns them.\<close>

definition items :: "Shop \<Rightarrow> Cart \<Rightarrow> CartItem list" where
  "items db c = filter (\<lambda>i. cart i = cart_id c) (cart_items db)"

text \<open>\<^verbatim>\<open>CartItem.unit_price\<close>, \<^verbatim>\<open>CartItem.total_price\<close> and \<^verbatim>\<open>CartItem.is_available\<close>.\<close>

definition unit_price :: "Shop \<Rightarrow> CartItem \<Rightarrow> rat" where
  "unit_price db i =
     (case variant i of
        Some v \<Rightarrow> price db (variants db v)
      | None \<Rightarrow> current_price (products db (item_product i)))"

definition total_price :: "Shop \<Rightarrow> CartItem \<Rightarrow> rat" where
  "total_price db i = unit_price db i * of_int (quantity i)"

definition is_available :: "Shop \<Rightarrow> CartItem \<Rightarrow> bool" where
  "is_available db i =
     (case variant i of
        Some v \<Rightarrow> stock (variants db v) \<ge> quantity i
      | None \<Rightarrow> total_stock (products db (item_product i)) \<ge> quantity i)"

text \<open>The properties of \<^verbatim>\<open>Cart\<close>.\<close>

definition total_items :: "Shop \<Rightarrow> Cart \<Rightarrow> int" where
  "total_items db c = sum_list (map quantity (items db c))"

definition subtotal :: "Shop \<Rightarrow> Cart \<Rightarrow> rat" where
  "subtotal db c = sum_list (map (total_price db) (items db c))"

definition tax :: "Shop \<Rightarrow> Cart \<Rightarrow> rat" where
  "tax db c = subtotal db c * (1 / 10)"

definition shipping :: "Shop \<Rightarrow> Cart \<Rightarrow> rat" where
  "shipping db c = (if subtotal db c \<ge> 50 then 0 else 5)"

definition total :: "Shop \<Rightarrow> Cart \<Rightarrow> rat" where
  "total db c = subtotal db c + tax db c + shipping db c"

text \<open>\<^verbatim>\<open>Cart.clear\<close>: the rows of the cart are deleted, the cart stays.\<close>

definition clear :: "Shop \<Rightarrow> Cart \<Rightarrow> Shop" where
  "clear db c = db\<lparr>cart_items := filter (\<lambda>i. cart i \<noteq> cart_id c) (cart_items db)\<rparr>"

subsection \<open>Orders\<close>

text \<open>\<^verbatim>\<open>generate_order_number\<close>: the date stamp and the four random characters are
  arguments.\<close>

definition generate_order_number :: "string \<Rightarrow> string \<Rightarrow> string" where
  "generate_order_number timestamp random_str = ''VSO'' @ timestamp @ random_str"

text \<open>
  \<^verbatim>\<open>Order.save\<close>, up to the write of the row. An empty order number is replaced; then
  one \<^verbatim>\<open>if\<close>/\<^verbatim>\<open>elif\<close> chain stamps the timestamp of the current status when that
  timestamp is still null.
\<close>

definition Order_save :: "string \<Rightarrow> string \<Rightarrow> time \<Rightarrow> Order \<Rightarrow> Order" where
  "Order_save timestamp random_str now od =
     (let od1 = (if order_number od = []
                 then od\<lparr>order_number := generate_order_number timestamp random_str\<rparr>
                 else od)
      in if status od1 = ''paid'' \<and> paid_at od1 = None then od1\<lparr>paid_at := Some now\<rparr>
         else if status od1 = ''shipped'' \<and> shipped_at od1 = None
           then od1\<lparr>shipped_at := Some now\<rparr>
         else if status od1 = ''delivered'' \<and> delivered_at od1 = None
           then od1\<lparr>delivered_at := Some now\<rparr>
         else if status od1 = ''cancelled'' \<and> cancelled_at od1 = None
           then od1\<lparr>cancelled_at := Some now\<rparr>
         else od1)"

text \<open>A caller that assigns a sequence of statuses to an order, saving after each
  assignment at the given time.\<close>

fun save_history :: "string \<Rightarrow> string \<Rightarrow> Order \<Rightarrow> (string \<times> time) list \<Rightarrow> Order" where
  "save_history timestamp random_str od [] = od"
| "save_history timestamp random_str od ((s, now) # steps) =
     save_history timestamp random_str
       (Order_save timestamp random_str now (od\<lparr>status := s\<rparr>)) steps"

text \<open>The time of the first save of a history made in status \<open>s\<close>.\<close>

definition first_save_in :: "string \<Rightarrow> (string \<times> time) list \<Rightarrow> time option" where
  "first_save_in s steps = map_option snd (find (\<lambda>step. fst step = s) steps)"

subsection \<open>Checkout\<close>

text \<open>The request of \<^verbatim>\<open>CheckoutView.post\<close>: the logged-in user and the form data.\<close>

record Request =
  request_user :: User
  POST :: "string \<rightharpoonup> string"

definition POST_get :: "Request \<Rightarrow> string \<Rightarrow> string \<Rightarrow> string" where
  "POST_get req k dflt = (case POST req k of None \<Rightarrow> dflt | Some v \<Rightarrow> v)"

text \<open>
  The ways the view ends without an order: the redirect for an empty cart, and the
  database's refusal of a second order row with the same primary key or the same unique
  order number.
\<close>

datatype refusal = EmptyCart | IntegrityError

text \<open>
  The body of the loop over the cart's items: the order item is created, then the stock
  of the variant (when there is one) and of the product is decremented and the sales
  count incremented. Each related object is read from the database when the item is
  processed and written back by its \<^verbatim>\<open>save()\<close>. No branch compares stock with quantity.
\<close>

definition order_line :: "pk \<Rightarrow> Shop \<Rightarrow> CartItem \<Rightarrow> Shop" where
  "order_line oid db i =
     (let p = products db (item_product i);
          line = \<lparr>order = oid, ordered_product = Some (item_product i),
                  ordered_variant = variant i, product_name = name p, product_sku = sku p,
                  ordered_size = (case variant i of Some v \<Rightarrow> variant_size (variants db v)
                                  | None \<Rightarrow> []),
                  ordered_color = (case variant i of Some v \<Rightarrow> color (variants db v)
                                   | None \<Rightarrow> []),
                  ordered_unit_price = unit_price db i, ordered_quantity = quantity i\<rparr>;
          db1 = db\<lparr>order_items := order_items db @ [line]\<rparr>;
          db2 = (case variant i of
                   Some v \<Rightarrow>
                     db1\<lparr>variants := (variants db1)
                       (v := (variants db1 v)\<lparr>stock := stock (variants db1 v) - quantity i\<rparr>)\<rparr>
                 | None \<Rightarrow> db1)
      in db2\<lparr>products := (products db2)
           (item_product i := p\<lparr>total_stock := total_stock p - quantity i,
                                 sales_count := sales_count p + quantity i\<rparr>)\<rparr>)"

text \<open>
  \<^verbatim>\<open>CheckoutView.post\<close>. \<open>new_id\<close> is the fresh primary key of the order; the date
  stamp, the random characters and the time are those of the order's first save.
\<close>

definition checkout ::
  "pk \<Rightarrow> string \<Rightarrow> string \<Rightarrow> time \<Rightarrow> Request \<Rightarrow> Shop \<Rightarrow> refusal + Shop" where
  "checkout new_id timestamp random_str now req db =
     (case find (\<lambda>c. user c = Some (user_id (request_user req))) (carts db) of
        None \<Rightarrow> Inl EmptyCart
      | Some c \<Rightarrow>
          if total_items db c = 0 then Inl EmptyCart
          else
            let u = request_user req;
                od = Order_save timestamp random_str now
                  \<lparr>order_id = new_id, order_number = [], order_user = Some (user_id u),
                   customer_email = email u, customer_phone = phone_number u,
                   shipping_address = POST_get req ''shipping_address'' (address u),
                   status = ''pending'',
                   payment_method = POST_get req ''payment_method'' ''cod'',
                   customer_notes = POST_get req ''notes'' [],
                   order_subtotal = subtotal db c, order_tax = tax db c,
                   order_shipping = shipping db c, discount = 0, order_total = total db c,
                   paid_at = None, shipped_at = None, delivered_at = None,
                   cancelled_at = None\<rparr>
            in if order_number od \<in> set (map order_number (orders db))
                  \<or> new_id \<in> set (map order_id (orders db))
               then Inl IntegrityError
               else
                 let db1 = db\<lparr>orders := orders db @ [od]\<rparr>;
                     db2 = foldl (order_line new_id) db1 (items db1 c)
                 in Inr (clear db2 c))"

subsection \<open>Example data\<close>

definition fixed_1000 :: Coupon where
  "fixed_1000 = \<lparr>coupon_code = ''BIG'', discount_type = ''fixed'', discount_value = 1000,
     minimum_purchase = 0, usage_limit = None, usage_count = 0, single_use = False,
     valid_from = 0, valid_to = 100, is_active = True, applicable_categories = [],
     applicable_products = [], applicable_users = []\<rparr>"

definition percent_150 :: Coupon where
  "percent_150 = \<lparr>coupon_code = ''TRIPLE'', discount_type = ''percentage'',
     discount_value = 150, minimum_purchase = 20, usage_limit = None, usage_count = 0,
     single_use = False, valid_from = 0, valid_to = 100, is_active = True,
     applicable_categories = [], applicable_products = [], applicable_users = []\<rparr>"

definition limited :: "int option \<Rightarrow> int \<Rightarrow> Coupon" where
  "limited cap used = \<lparr>coupon_code = ''LTD'', discount_type = ''percentage'',
     discount_value = 10, minimum_purchase = 0, usage_limit = cap, usage_count = used,
     single_use = False, valid_from = 10, valid_to = 20, is_active = True,
     applicable_categories = [], applicable_products = [7], applicable_users = []\<rparr>"

definition person :: "pk \<Rightarrow> string \<Rightarrow> bool \<Rightarrow> User" where
  "person i r su = \<lparr>user_id = i, username = ''u'', email = ''u@example.com'',
     phone_number = ''+1234567890'', address = ''123 Test St'', role = r,
     is_staff = False, is_superuser = su\<rparr>"

definition tee :: Product where
  "tee = \<lparr>sku = ''TEE-1'', name = ''Tee'', base_price = 100, discount_percentage = 20,
     discount_amount = 0, total_stock = 2, sales_count = 0\<rparr>"

definition pin :: Product where
  "pin = \<lparr>sku = ''PIN-1'', name = ''Pin'', base_price = 10, discount_percentage = 0,
     discount_amount = 0, total_stock = 9, sales_count = 0\<rparr>"

definition tee_blue :: ProductVariant where
  "tee_blue = \<lparr>product = 1, variant_size = ''M'', color = ''Blue'', stock = 2,
     additional_price = 0\<rparr>"

definition cart_of :: "pk \<Rightarrow> Cart" where
  "cart_of u = \<lparr>cart_id = u, user = Some u, session_key = None\<rparr>"

text \<open>A shop with two customers, each holding two blue tees in the cart, and two left
  in stock; the third customer's cart holds one pin.\<close>

definition boutique :: Shop where
  "boutique = \<lparr>products = (\<lambda>k. if k = 1 then tee else pin), variants = (\<lambda>k. tee_blue),
     carts = [cart_of 1, cart_of 2, cart_of 3],
     cart_items = [\<lparr>cart = 1, item_product = 1, variant = Some 1, quantity = 2\<rparr>,
                   \<lparr>cart = 2, item_product = 1, variant = Some 1, quantity = 2\<rparr>,
                   \<lparr>cart = 3, item_product = 2, variant = None, quantity = 1\<rparr>],
     orders = [], order_items = []\<rparr>"

definition request_of :: "pk \<Rightarrow> Request" where
  "request_of u = \<lparr>request_user = person u ''customer'' False, POST = Map.empty\<rparr>"

definition new_order :: Order where
  "new_order = \<lparr>order_id = 1, order_number = [], order_user = Some 1,
     customer_email = ''u@example.com'', customer_phone = ''+1234567890'',
     shipping_address = ''123 Test St'', status = ''pending'', payment_method = ''cod'',
     customer_notes = [], order_subtotal = 160, order_tax = 16, order_shipping = 0,
     discount = 0, order_total = 176, paid_at = None, shipped_at = None,
     delivered_at = None, cancelled_at = None\<rparr>"

definition busy_history :: "(string \<times> time) list" where
  "busy_history = [(''pending'', 1), (''paid'', 2), (''shipped'', 3), (''paid'', 4),
     (''delivered'', 5), (''shipped'', 6), (''delivered'', 7), (''cancelled'', 8),
     (''paid'', 9), (''cancelled'', 10)]"

section \<open>Pricing\<close>

text \<open>
  C1. For every product, \<open>current_price\<close> is \<open>base_price * (1 - discount_percentage / 100)\<close>
  when \<open>discount_percentage > 0\<close>, whatever \<open>discount_amount\<close> is; otherwise
  \<open>max (base_price - discount_amount) 0\<close> when \<open>discount_amount > 0\<close>; otherwise
  \<open>base_price\<close>. A product with base price 100 and a 20 percent discount costs 80.
\<close>

theorem current_price_cases:
  "(discount_percentage p > 0 \<longrightarrow>
      current_price p = base_price p * (1 - discount_percentage p / 100))
   \<and> (\<not> discount_percentage p > 0 \<and> discount_amount p > 0 \<longrightarrow>
      current_price p = max (base_price p - discount_amount p) 0)
   \<and> (\<not> discount_percentage p > 0 \<and> \<not> discount_amount p > 0 \<longrightarrow>
      current_price p = base_price p)
   \<and> (base_price p = 100 \<and> discount_percentage p = 20 \<longrightarrow> current_price p = 80)"
  by (simp add: current_price_def)

theorem current_price_cases_witness:
  "current_price \<lparr>sku = ''A'', name = ''shirt'', base_price = 100, discount_percentage = 20,
      discount_amount = 30, total_stock = 1, sales_count = 0\<rparr> = 80
   \<and> current_price \<lparr>sku = ''B'', name = ''scarf'', base_price = 100, discount_percentage = 0,
      discount_amount = 130, total_stock = 1, sales_count = 0\<rparr> = 0
   \<and> current_price \<lparr>sku = ''C'', name = ''socks'', base_price = 100, discount_percentage = 0,
      discount_amount = 0, total_stock = 1, sales_count = 0\<rparr> = 100"
  using
    current_price_cases [of "\<lparr>sku = ''A'', name = ''shirt'', base_price = 100,
      discount_percentage = 20, discount_amount = 30, total_stock = 1, sales_count = 0\<rparr>"]
    current_price_cases [of "\<lparr>sku = ''B'', name = ''scarf'', base_price = 100,
      discount_percentage = 0, discount_amount = 130, total_stock = 1, sales_count = 0\<rparr>"]
    current_price_cases [of "\<lparr>sku = ''C'', name = ''socks'', base_price = 100,
      discount_percentage = 0, discount_amount = 0, total_stock = 1, sales_count = 0\<rparr>"]
  by simp

section \<open>Carts\<close>

text \<open>
  C7. For every cart, the tax is a tenth of the subtotal, shipping is 0 when the subtotal
  is at least 50 and 5 otherwise, and the total is subtotal plus tax plus shipping. A cart
  whose only item has unit price 80 and quantity 2 has subtotal 160, tax 16, shipping 0
  and total 176.
\<close>

theorem cart_totals:
  "tax db c = subtotal db c * (1 / 10)
   \<and> (subtotal db c \<ge> 50 \<longrightarrow> shipping db c = 0)
   \<and> (subtotal db c < 50 \<longrightarrow> shipping db c = 5)
   \<and> total db c = subtotal db c + tax db c + shipping db c
   \<and> (\<forall>i. items db c = [i] \<and> unit_price db i = 80 \<and> quantity i = 2 \<longrightarrow>
         subtotal db c = 160 \<and> tax db c = 16 \<and> shipping db c = 0 \<and> total db c = 176)"
  by (simp add: tax_def shipping_def total_def subtotal_def total_price_def)

theorem cart_totals_witness:
  "items boutique (cart_of 1) = [\<lparr>cart = 1, item_product = 1, variant = Some 1, quantity = 2\<rparr>]
   \<and> unit_price boutique \<lparr>cart = 1, item_product = 1, variant = Some 1, quantity = 2\<rparr> = 80
   \<and> subtotal boutique (cart_of 1) = 160 \<and> tax boutique (cart_of 1) = 16
   \<and> shipping boutique (cart_of 1) = 0 \<and> total boutique (cart_of 1) = 176
   \<and> subtotal boutique (cart_of 3) = 10 \<and> tax boutique (cart_of 3) = 1
   \<and> shipping boutique (cart_of 3) = 5 \<and> total boutique (cart_of 3) = 16"
proof -
  have one: "items boutique (cart_of 1)
      = [\<lparr>cart = 1, item_product = 1, variant = Some 1, quantity = 2\<rparr>]"
    by (simp add: items_def boutique_def cart_of_def)
  have eighty:
    "unit_price boutique \<lparr>cart = 1, item_product = 1, variant = Some 1, quantity = 2\<rparr> = 80"
    by (simp add: unit_price_def price_def current_price_def boutique_def tee_blue_def
        tee_def)
  have ten: "subtotal boutique (cart_of 3) = 10"
    by (simp add: subtotal_def items_def total_price_def unit_price_def current_price_def
        boutique_def cart_of_def pin_def)
  show ?thesis
    using cart_totals [of boutique "cart_of 1"] cart_totals [of boutique "cart_of 3"]
      one eighty ten
    by simp
qed

section \<open>Coupons\<close>

text \<open>
  C3. For every coupon and subtotal, \<open>calculate_discount\<close> is 0 when the subtotal is below
  \<open>minimum_purchase\<close>; otherwise it is \<open>subtotal * (discount_value / 100)\<close> for a
  percentage coupon and \<open>min discount_value subtotal\<close> for a fixed coupon, so that a fixed
  discount never exceeds the subtotal it is applied to (nor any non-negative subtotal). A
  fixed coupon of 1000 on a subtotal of 50 gives 50.
\<close>

theorem calculate_discount_cases:
  "(amount < minimum_purchase c \<longrightarrow> calculate_discount c amount = 0)
   \<and> (minimum_purchase c \<le> amount \<and> discount_type c = ''percentage'' \<longrightarrow>
        calculate_discount c amount = amount * (discount_value c / 100))
   \<and> (minimum_purchase c \<le> amount \<and> discount_type c = ''fixed'' \<longrightarrow>
        calculate_discount c amount = min (discount_value c) amount)
   \<and> (discount_type c = ''fixed'' \<and> (minimum_purchase c \<le> amount \<or> 0 \<le> amount) \<longrightarrow>
        calculate_discount c amount \<le> amount)
   \<and> (discount_type c = ''fixed'' \<and> discount_value c = 1000 \<and> minimum_purchase c \<le> 50 \<longrightarrow>
        calculate_discount c 50 = 50)"
  by (simp add: calculate_discount_def)

theorem calculate_discount_cases_witness:
  "calculate_discount fixed_1000 50 = 50
   \<and> calculate_discount percent_150 10 = 0
   \<and> calculate_discount percent_150 40 = 60"
  using calculate_discount_cases [of 50 fixed_1000]
    calculate_discount_cases [of 10 percent_150]
    calculate_discount_cases [of 40 percent_150]
  by (simp add: fixed_1000_def percent_150_def)

text \<open>
  C10. A percentage discount is not capped by the subtotal: for every percentage coupon
  with \<open>discount_value > 100\<close> and every positive subtotal that reaches
  \<open>minimum_purchase\<close>, \<open>calculate_discount\<close> is strictly greater than the subtotal. The
  witness exhibits such a coupon and subtotal.
\<close>

theorem percentage_discount_exceeds_subtotal:
  assumes "discount_type c = ''percentage''"
    and "discount_value c > 100"
    and "minimum_purchase c \<le> amount"
    and "0 < amount"
  shows "calculate_discount c amount > amount"
proof -
  have "1 < discount_value c / 100"
    using assms(2) by simp
  then have "amount * 1 < amount * (discount_value c / 100)"
    using assms(4) by (simp only: mult_strict_left_mono)
  then show ?thesis
    using assms(1, 3) by (simp add: calculate_discount_def)
qed

theorem percentage_discount_exceeds_subtotal_witness:
  "discount_type percent_150 = ''percentage'' \<and> discount_value percent_150 > 100
   \<and> minimum_purchase percent_150 \<le> 40 \<and> calculate_discount percent_150 40 > 40"
  using percentage_discount_exceeds_subtotal [of percent_150 40]
  by (simp add: percent_150_def)

text \<open>
  C4, as the code has it. For every coupon and time \<open>now\<close>, \<open>is_valid\<close> is false when the
  coupon is not active, false when \<open>now\<close> is outside the closed interval from \<open>valid_from\<close>
  to \<open>valid_to\<close>, and false when \<open>usage_limit\<close> is neither null nor 0 and \<open>usage_count\<close> has
  reached it. In every other case it is true: a \<open>usage_limit\<close> of 0 counts as no limit,
  like null. The restriction sets are not consulted.
\<close>

theorem is_valid_cases:
  "(\<not> is_active c \<longrightarrow> \<not> is_valid now c)
   \<and> (now < valid_from c \<or> valid_to c < now \<longrightarrow> \<not> is_valid now c)
   \<and> (\<forall>l. usage_limit c = Some l \<and> l \<noteq> 0 \<and> l \<le> usage_count c \<longrightarrow> \<not> is_valid now c)
   \<and> (is_active c \<and> valid_from c \<le> now \<and> now \<le> valid_to c
        \<and> (usage_limit c = None \<or> usage_limit c = Some 0
            \<or> (\<exists>l. usage_limit c = Some l \<and> usage_count c < l)) \<longrightarrow> is_valid now c)
   \<and> is_valid now (c\<lparr>applicable_categories := cs, applicable_products := ps,
        applicable_users := us\<rparr>) = is_valid now c"
  by (auto simp: is_valid_def split: option.splits)

theorem is_valid_cases_witness:
  "\<not> is_valid 15 ((limited None 0)\<lparr>is_active := False\<rparr>)
   \<and> \<not> is_valid 9 (limited None 0) \<and> \<not> is_valid 21 (limited None 0)
   \<and> is_valid 10 (limited None 0) \<and> is_valid 20 (limited None 0)
   \<and> \<not> is_valid 15 (limited (Some 3) 3) \<and> is_valid 15 (limited (Some 3) 2)
   \<and> is_valid 15 (limited (Some 0) 4)"
  using is_valid_cases [of "(limited None 0)\<lparr>is_active := False\<rparr>" 15]
    is_valid_cases [of "limited None 0" 9] is_valid_cases [of "limited None 0" 21]
    is_valid_cases [of "limited None 0" 10] is_valid_cases [of "limited None 0" 20]
    is_valid_cases [of "limited (Some 3) 3" 15] is_valid_cases [of "limited (Some 3) 2" 15]
    is_valid_cases [of "limited (Some 0) 4" 15]
  by (simp add: limited_def)

text \<open>Counterexample to C4 as the specification words it: a coupon whose \<open>usage_limit\<close> is
  0 has a limit that is set and reached by its \<open>usage_count\<close>, and it is valid.\<close>

theorem is_valid_zero_limit_counterexample:
  "usage_limit (limited (Some 0) 4) = Some 0
   \<and> usage_count (limited (Some 0) 4) \<ge> 0
   \<and> is_valid 15 (limited (Some 0) 4)"
  by (simp add: limited_def is_valid_def)

section \<open>Roles\<close>

text \<open>
  C5, as the code has it. An employee who calls \<open>can_delete_user\<close> on an admin gets false,
  whether the employee's \<open>is_superuser\<close> flag is false or true: a superuser passes the
  admin check and is then rejected by the rank rule, the target's rank 3 being at least
  the actor's rank 1.
\<close>

theorem employee_cannot_delete_admin:
  "role actor = ''employee'' \<Longrightarrow> role target = ''admin'' \<Longrightarrow> \<not> can_delete_user actor target"
  by (simp add: can_delete_user_def role_rank_def role_hierarchy_def)

theorem employee_cannot_delete_admin_witness:
  "role (person 1 ''employee'' False) = ''employee'' \<and> role (person 2 ''admin'' True) = ''admin''
   \<and> \<not> can_delete_user (person 1 ''employee'' False) (person 2 ''admin'' True)"
  using employee_cannot_delete_admin [of "person 1 ''employee'' False" "person 2 ''admin'' True"]
  by (simp add: person_def)

text \<open>Counterexample to C5 as the specification words it: for an employee whose
  \<open>is_superuser\<close> flag is true and an admin target the result is false, not true.\<close>

theorem superuser_employee_counterexample:
  "role (person 1 ''employee'' True) = ''employee'' \<and> is_superuser (person 1 ''employee'' True)
   \<and> role (person 2 ''admin'' True) = ''admin''
   \<and> \<not> can_delete_user (person 1 ''employee'' True) (person 2 ''admin'' True)"
  by (simp add: person_def can_delete_user_def is_staff_member_def is_admin_def
      role_rank_def role_hierarchy_def)

text \<open>
  C6, as the code has it. When actor and target have the same id, \<open>can_edit_user\<close> is true
  exactly when the actor's role is admin, manager or employee: the staff check comes
  before the self-edit check, so a customer editing themselves gets false.
\<close>

theorem self_edit_iff_staff:
  "user_id actor = user_id target \<Longrightarrow>
     can_edit_user actor target \<longleftrightarrow> role actor \<in> {''admin'', ''manager'', ''employee''}"
  by (simp add: can_edit_user_def is_staff_member_def)

theorem self_edit_iff_staff_witness:
  "can_edit_user (person 1 ''employee'' False) (person 1 ''employee'' False)
   \<and> can_edit_user (person 3 ''manager'' False) (person 3 ''manager'' False)
   \<and> \<not> can_edit_user (person 4 ''customer'' False) (person 4 ''customer'' False)"
  using self_edit_iff_staff [of "person 1 ''employee'' False" "person 1 ''employee'' False"]
    self_edit_iff_staff [of "person 3 ''manager'' False" "person 3 ''manager'' False"]
    self_edit_iff_staff [of "person 4 ''customer'' False" "person 4 ''customer'' False"]
  by (simp add: person_def)

text \<open>Counterexample to C6 as the specification words it: a customer and the same customer
  have equal ids, and the result is false.\<close>

theorem customer_self_edit_counterexample:
  "user_id (person 4 ''customer'' False) = user_id (person 4 ''customer'' False)
   \<and> \<not> can_edit_user (person 4 ''customer'' False) (person 4 ''customer'' False)"
  by (simp add: person_def can_edit_user_def is_staff_member_def)

text \<open>Saving never clears the superuser flag, so a run of role assignments keeps it.\<close>

lemma User_save_keeps_superuser: "is_superuser u \<Longrightarrow> is_superuser (User_save u)"
  by (simp add: User_save_def Let_def)

lemma assign_roles_keeps_superuser: "is_superuser u \<Longrightarrow> is_superuser (assign_roles u rs)"
proof (induction rs arbitrary: u)
  case Nil
  then show ?case by simp
next
  case (Cons r rs)
  have "is_superuser (User_save (u\<lparr>role := r\<rparr>))"
    using Cons.prems by (simp add: User_save_keeps_superuser)
  then show ?case
    using Cons.IH by simp
qed

text \<open>
  C9. After every \<open>User_save\<close>, \<open>is_staff\<close> holds exactly when the role is admin, manager
  or employee, and the role admin forces \<open>is_superuser\<close>. Saving never clears
  \<open>is_superuser\<close>: a user once saved as admin keeps it through every later assignment of
  roles, each followed by a save, and so \<open>has_perm\<close> keeps granting every permission.
\<close>

theorem save_flags_and_sticky_superuser:
  "(is_staff (User_save u) \<longleftrightarrow> role u \<in> {''admin'', ''manager'', ''employee''})
   \<and> role (User_save u) = role u
   \<and> (role u = ''admin'' \<longrightarrow> is_superuser (User_save u))
   \<and> (is_superuser u \<longrightarrow> is_superuser (User_save u))
   \<and> (role u = ''admin'' \<longrightarrow>
        is_superuser (assign_roles (User_save u) rs)
        \<and> has_perm super_has_perm (assign_roles (User_save u) rs) perm)"
proof -
  have flags: "(is_staff (User_save u) \<longleftrightarrow> role u \<in> {''admin'', ''manager'', ''employee''})
      \<and> role (User_save u) = role u
      \<and> (role u = ''admin'' \<longrightarrow> is_superuser (User_save u))"
    by (simp add: User_save_def Let_def)
  have sticky: "is_superuser (assign_roles (User_save u) rs)" if "role u = ''admin''"
    using that flags by (simp add: assign_roles_keeps_superuser)
  show ?thesis
    using flags sticky by (simp add: User_save_keeps_superuser has_perm_def)
qed

theorem save_flags_and_sticky_superuser_witness:
  "role (assign_roles (User_save (person 2 ''admin'' False)) [''manager'', ''customer''])
     = ''customer''
   \<and> \<not> is_staff (assign_roles (User_save (person 2 ''admin'' False)) [''manager'', ''customer''])
   \<and> is_superuser (assign_roles (User_save (person 2 ''admin'' False)) [''manager'', ''customer''])
   \<and> has_perm (\<lambda>u p. False)
        (assign_roles (User_save (person 2 ''admin'' False)) [''manager'', ''customer''])
        ''products.delete_product''
   \<and> \<not> has_perm (\<lambda>u p. False) (User_save (person 4 ''customer'' False))
        ''products.delete_product''"
  using save_flags_and_sticky_superuser [of "person 2 ''admin'' False"
      "[''manager'', ''customer'']" "\<lambda>u p. False" "''products.delete_product''"]
  by (simp add: person_def User_save_def Let_def has_perm_def is_admin_def
      permission_matrix_def)

section \<open>Orders\<close>

text \<open>What one save does to each of the four timestamps.\<close>

lemma Order_save_paid_at:
  "paid_at (Order_save ts r now od) =
     (if status od = ''paid'' \<and> paid_at od = None then Some now else paid_at od)"
  by (simp add: Order_save_def Let_def)

lemma Order_save_shipped_at:
  "shipped_at (Order_save ts r now od) =
     (if status od = ''shipped'' \<and> shipped_at od = None then Some now else shipped_at od)"
  by (simp add: Order_save_def Let_def)

lemma Order_save_delivered_at:
  "delivered_at (Order_save ts r now od) =
     (if status od = ''delivered'' \<and> delivered_at od = None then Some now
      else delivered_at od)"
  by (simp add: Order_save_def Let_def)

lemma Order_save_cancelled_at:
  "cancelled_at (Order_save ts r now od) =
     (if status od = ''cancelled'' \<and> cancelled_at od = None then Some now
      else cancelled_at od)"
  by (simp add: Order_save_def Let_def)

text \<open>After a history of saves, a timestamp that was set before is unchanged, and one
  that was null holds the time of the first save made in its status.\<close>

lemma save_history_paid_at:
  "paid_at (save_history ts r od steps) =
     (case paid_at od of Some t \<Rightarrow> Some t | None \<Rightarrow> first_save_in ''paid'' steps)"
proof (induction steps arbitrary: od)
  case Nil
  then show ?case by (simp add: first_save_in_def split: option.splits)
next
  case (Cons step steps)
  obtain s now where step: "step = (s, now)" by (cases step)
  show ?case
    unfolding step
    by (simp add: Cons.IH Order_save_paid_at first_save_in_def split: option.splits)
qed

lemma save_history_shipped_at:
  "shipped_at (save_history ts r od steps) =
     (case shipped_at od of Some t \<Rightarrow> Some t | None \<Rightarrow> first_save_in ''shipped'' steps)"
proof (induction steps arbitrary: od)
  case Nil
  then show ?case by (simp add: first_save_in_def split: option.splits)
next
  case (Cons step steps)
  obtain s now where step: "step = (s, now)" by (cases step)
  show ?case
    unfolding step
    by (simp add: Cons.IH Order_save_shipped_at first_save_in_def split: option.splits)
qed

lemma save_history_delivered_at:
  "delivered_at (save_history ts r od steps) =
     (case delivered_at od of Some t \<Rightarrow> Some t
      | None \<Rightarrow> first_save_in ''delivered'' steps)"
proof (induction steps arbitrary: od)
  case Nil
  then show ?case by (simp add: first_save_in_def split: option.splits)
next
  case (Cons step steps)
  obtain s now where step: "step = (s, now)" by (cases step)
  show ?case
    unfolding step
    by (simp add: Cons.IH Order_save_delivered_at first_save_in_def split: option.splits)
qed

lemma save_history_cancelled_at:
  "cancelled_at (save_history ts r od steps) =
     (case cancelled_at od of Some t \<Rightarrow> Some t
      | None \<Rightarrow> first_save_in ''cancelled'' steps)"
proof (induction steps arbitrary: od)
  case Nil
  then show ?case by (simp add: first_save_in_def split: option.splits)
next
  case (Cons step steps)
  obtain s now where step: "step = (s, now)" by (cases step)
  show ?case
    unfolding step
    by (simp add: Cons.IH Order_save_cancelled_at first_save_in_def split: option.splits)
qed

text \<open>
  C8. A save of an order whose status is paid (shipped, delivered, cancelled) and whose
  \<open>paid_at\<close> (\<open>shipped_at\<close>, \<open>delivered_at\<close>, \<open>cancelled_at\<close>) is null sets that timestamp to
  the current time. A timestamp that is not null is left as it is by every save and by
  every history of status changes and saves, whatever the statuses. Hence after any
  history that starts from a null timestamp, the timestamp is the time of the first save
  made in its status.
\<close>

theorem status_timestamps_set_once:
  "(status od = ''paid'' \<and> paid_at od = None \<longrightarrow>
      paid_at (Order_save ts r now od) = Some now)
   \<and> (status od = ''shipped'' \<and> shipped_at od = None \<longrightarrow>
      shipped_at (Order_save ts r now od) = Some now)
   \<and> (status od = ''delivered'' \<and> delivered_at od = None \<longrightarrow>
      delivered_at (Order_save ts r now od) = Some now)
   \<and> (status od = ''cancelled'' \<and> cancelled_at od = None \<longrightarrow>
      cancelled_at (Order_save ts r now od) = Some now)
   \<and> (paid_at od \<noteq> None \<longrightarrow>
      paid_at (Order_save ts r now od) = paid_at od
      \<and> paid_at (save_history ts r od steps) = paid_at od)
   \<and> (shipped_at od \<noteq> None \<longrightarrow>
      shipped_at (Order_save ts r now od) = shipped_at od
      \<and> shipped_at (save_history ts r od steps) = shipped_at od)
   \<and> (delivered_at od \<noteq> None \<longrightarrow>
      delivered_at (Order_save ts r now od) = delivered_at od
      \<and> delivered_at (save_history ts r od steps) = delivered_at od)
   \<and> (cancelled_at od \<noteq> None \<longrightarrow>
      cancelled_at (Order_save ts r now od) = cancelled_at od
      \<and> cancelled_at (save_history ts r od steps) = cancelled_at od)
   \<and> (paid_at od = None \<longrightarrow>
      paid_at (save_history ts r od steps) = first_save_in ''paid'' steps)
   \<and> (shipped_at od = None \<longrightarrow>
      shipped_at (save_history ts r od steps) = first_save_in ''shipped'' steps)
   \<and> (delivered_at od = None \<longrightarrow>
      delivered_at (save_history ts r od steps) = first_save_in ''delivered'' steps)
   \<and> (cancelled_at od = None \<longrightarrow>
      cancelled_at (save_history ts r od steps) = first_save_in ''cancelled'' steps)"
proof -
  have one: "(status od = ''paid'' \<and> paid_at od = None \<longrightarrow>
        paid_at (Order_save ts r now od) = Some now)
      \<and> (status od = ''shipped'' \<and> shipped_at od = None \<longrightarrow>
        shipped_at (Order_save ts r now od) = Some now)
      \<and> (status od = ''delivered'' \<and> delivered_at od = None \<longrightarrow>
        delivered_at (Order_save ts r now od) = Some now)
      \<and> (status od = ''cancelled'' \<and> cancelled_at od = None \<longrightarrow>
        cancelled_at (Order_save ts r now od) = Some now)"
    by (simp add: Order_save_paid_at Order_save_shipped_at Order_save_delivered_at
        Order_save_cancelled_at)
  have paid: "(paid_at od \<noteq> None \<longrightarrow>
        paid_at (Order_save ts r now od) = paid_at od
        \<and> paid_at (save_history ts r od steps) = paid_at od)
      \<and> (paid_at od = None \<longrightarrow>
        paid_at (save_history ts r od steps) = first_save_in ''paid'' steps)"
    by (auto simp: Order_save_paid_at save_history_paid_at)
  have shipped: "(shipped_at od \<noteq> None \<longrightarrow>
        shipped_at (Order_save ts r now od) = shipped_at od
        \<and> shipped_at (save_history ts r od steps) = shipped_at od)
      \<and> (shipped_at od = None \<longrightarrow>
        shipped_at (save_history ts r od steps) = first_save_in ''shipped'' steps)"
    by (auto simp: Order_save_shipped_at save_history_shipped_at)
  have delivered: "(delivered_at od \<noteq> None \<longrightarrow>
        delivered_at (Order_save ts r now od) = delivered_at od
        \<and> delivered_at (save_history ts r od steps) = delivered_at od)
      \<and> (delivered_at od = None \<longrightarrow>
        delivered_at (save_history ts r od steps) = first_save_in ''delivered'' steps)"
    by (auto simp: Order_save_delivered_at save_history_delivered_at)
  have cancelled: "(cancelled_at od \<noteq> None \<longrightarrow>
        cancelled_at (Order_save ts r now od) = cancelled_at od
        \<and> cancelled_at (save_history ts r od steps) = cancelled_at od)
      \<and> (cancelled_at od = None \<longrightarrow>
        cancelled_at (save_history ts r od steps) = first_save_in ''cancelled'' steps)"
    by (auto simp: Order_save_cancelled_at save_history_cancelled_at)
  show ?thesis
    using one paid shipped delivered cancelled by blast
qed

theorem status_timestamps_set_once_witness:
  "paid_at (Order_save ''20260101'' ''AB12'' 7 (new_order\<lparr>status := ''paid''\<rparr>)) = Some 7
   \<and> shipped_at (Order_save ''20260101'' ''AB12'' 7 (new_order\<lparr>status := ''shipped''\<rparr>))
       = Some 7
   \<and> delivered_at (Order_save ''20260101'' ''AB12'' 7 (new_order\<lparr>status := ''delivered''\<rparr>))
       = Some 7
   \<and> cancelled_at (Order_save ''20260101'' ''AB12'' 7 (new_order\<lparr>status := ''cancelled''\<rparr>))
       = Some 7
   \<and> paid_at (save_history ''20260101'' ''AB12'' new_order busy_history) = Some 2
   \<and> shipped_at (save_history ''20260101'' ''AB12'' new_order busy_history) = Some 3
   \<and> delivered_at (save_history ''20260101'' ''AB12'' new_order busy_history) = Some 5
   \<and> cancelled_at (save_history ''20260101'' ''AB12'' new_order busy_history) = Some 8
   \<and> paid_at (save_history ''20260101'' ''AB12''
        (new_order\<lparr>paid_at := Some 1, shipped_at := Some 1, delivered_at := Some 1,
           cancelled_at := Some 1\<rparr>) busy_history) = Some 1"
  using
    status_timestamps_set_once [of "new_order\<lparr>status := ''paid''\<rparr>" "''20260101''"
      "''AB12''" 7 busy_history]
    status_timestamps_set_once [of "new_order\<lparr>status := ''shipped''\<rparr>" "''20260101''"
      "''AB12''" 7 busy_history]
    status_timestamps_set_once [of "new_order\<lparr>status := ''delivered''\<rparr>" "''20260101''"
      "''AB12''" 7 busy_history]
    status_timestamps_set_once [of "new_order\<lparr>status := ''cancelled''\<rparr>" "''20260101''"
      "''AB12''" 7 busy_history]
    status_timestamps_set_once [of new_order "''20260101''" "''AB12''" 7 busy_history]
    status_timestamps_set_once [of "new_order\<lparr>paid_at := Some 1, shipped_at := Some 1,
      delivered_at := Some 1, cancelled_at := Some 1\<rparr>" "''20260101''" "''AB12''" 7
      busy_history]
  by (simp add: new_order_def busy_history_def first_save_in_def)

section \<open>Checkout\<close>

text \<open>
  C2, on the code. The first customer checks out a cart whose only item asks for the two
  blue tees that are left: the order is placed and the variant's stock is 0. The second
  customer then checks out a cart asking for two of the same variant: the view places
  that order too and leaves the variant's stock at -2 and the product's at -2, where the
  specification requires a refusal with no order and no decrement. The view never reads
  \<open>is_available\<close>, which is false for the second customer's item before the checkout.
\<close>

theorem checkout_oversells:
  "(case checkout 1 ''20260101'' ''AB12'' 5 (request_of 1) boutique of
      Inl e \<Rightarrow> False
    | Inr db1 \<Rightarrow>
        stock (variants db1 1) = 0 \<and> length (orders db1) = 1
        \<and> items db1 (cart_of 1) = []
        \<and> \<not> is_available db1 \<lparr>cart = 2, item_product = 1, variant = Some 1, quantity = 2\<rparr>
        \<and> (case checkout 2 ''20260101'' ''CD34'' 6 (request_of 2) db1 of
              Inl e \<Rightarrow> False
            | Inr db2 \<Rightarrow>
                stock (variants db2 1) = - 2 \<and> total_stock (products db2 1) = - 2
                \<and> length (orders db2) = 2 \<and> length (order_items db2) = 2
                \<and> items db2 (cart_of 2) = []))"
  by (simp add: checkout_def boutique_def request_of_def person_def cart_of_def
      total_items_def items_def Order_save_def Let_def generate_order_number_def
      order_line_def clear_def tee_blue_def tee_def is_available_def)

end
